theory Spec2Isabelle
  imports Complex_Main "HOL-Library.Char_ord" "HOL-Library.List_Lexorder" "HOL-Library.Sublist"
begin

section \<open>Data model (shared/orders.ts)\<close>

text \<open>
  The zod schemas of \<^verbatim>\<open>shared/orders.ts\<close> become records; an optional field is an
  \<open>option\<close> (\<open>None\<close> is the absent key). A JavaScript number is taken as an exact rational:
  comparisons of doubles agree with it, sums are exact here. Strings are lists of
  characters compared unit by unit, as JavaScript compares strings. The field \<open>notes\<close> of
  an order is \<open>orderNotes\<close> here; the fields of the request, query and notification
  records carry the prefixes \<open>c_\<close>, \<open>u_\<close>, \<open>q_\<close> and \<open>n_\<close>.
\<close>

datatype OrderStatus = Pending | Processing | Completed | Cancelled

fun statusString :: "OrderStatus \<Rightarrow> string" where
  "statusString Pending = ''pending''"
| "statusString Processing = ''processing''"
| "statusString Completed = ''completed''"
| "statusString Cancelled = ''cancelled''"

record Order =
  orderId :: string
  customerName :: string
  customerEmail :: "string option"
  orderAmount :: rat
  orderDate :: string
  description :: "string option"
  status :: OrderStatus
  invoiceFileUrl :: "string option"
  invoiceFileName :: "string option"
  paymentMethod :: "string option"
  shippingAddress :: "string option"
  orderNotes :: "string list"
  createdAt :: string
  updatedAt :: string

record CreateOrderRequest =
  c_customerName :: string
  c_customerEmail :: "string option"
  c_orderAmount :: rat
  c_description :: "string option"
  c_paymentMethod :: "string option"
  c_shippingAddress :: "string option"

record UpdateOrderRequest =
  u_customerName :: "string option"
  u_customerEmail :: "string option"
  u_orderAmount :: "rat option"
  u_description :: "string option"
  u_status :: "OrderStatus option"
  u_paymentMethod :: "string option"
  u_shippingAddress :: "string option"
  u_notes :: "string list option"

datatype NotificationType = order_created | order_updated | order_completed | order_cancelled

record Notification =
  n_id :: string
  n_type :: NotificationType
  n_title :: string
  n_message :: string
  n_orderId :: string
  n_timestamp :: string
  n_read :: bool

text \<open>The two fields of an uploaded file (Express.Multer.File) that the service reads.\<close>

record MulterFile =
  filename :: string
  originalname :: string

section \<open>The order service (server/services/orderService.ts)\<close>

text \<open>The two private fields of class OrderService.\<close>

record OrderService =
  orders :: "Order list"
  notifications :: "Notification list"

text \<open>
  What an operation reads from outside the store: \<open>dateNow\<close> is the value of
  \<^verbatim>\<open>new Date().toISOString()\<close> in the operation itself, \<open>uuid\<close> and \<open>notifDateNow\<close> are
  the values of \<^verbatim>\<open>uuidv4()\<close> and of the clock inside createNotification.
\<close>

record Ambient =
  dateNow :: string
  uuid :: string
  notifDateNow :: string

subsection \<open>Library functions of the language\<close>

definition digitChar :: "nat \<Rightarrow> char" where
  "digitChar d = ''0123456789'' ! d"

text \<open>\<^verbatim>\<open>String(n)\<close> for a non-negative integer: its decimal digits.\<close>

fun numberToString :: "nat \<Rightarrow> string" where
  "numberToString n =
     (if n < 10 then [digitChar n] else numberToString (n div 10) @ [digitChar (n mod 10)])"

declare numberToString.simps [simp del]

definition padStart :: "nat \<Rightarrow> char \<Rightarrow> string \<Rightarrow> string" where
  "padStart targetLength c s = replicate (targetLength - length s) c @ s"

text \<open>\<^verbatim>\<open>Array.prototype.findIndex\<close>: \<open>None\<close> stands for the result -1.\<close>

fun findIndex :: "('a \<Rightarrow> bool) \<Rightarrow> 'a list \<Rightarrow> nat option" where
  "findIndex P [] = None"
| "findIndex P (x # xs) = (if P x then Some 0 else map_option Suc (findIndex P xs))"

text \<open>\<^verbatim>\<open>xs.splice(i, 1)\<close>: the array without its element at index \<open>i\<close>.\<close>

definition splice1 :: "nat \<Rightarrow> 'a list \<Rightarrow> 'a list" where
  "splice1 i xs = take i xs @ drop (Suc i) xs"

subsection \<open>Sample data\<close>

definition sampleOrders :: "Order list" where
  "sampleOrders =
    [\<lparr>orderId = ''ORD-001'', customerName = ''John Smith'',
      customerEmail = Some ''john.smith@email.com'', orderAmount = 129999 / 100,
      orderDate = ''2024-01-15T10:30:00Z'',
      description = Some ''High-performance laptop with extended warranty'',
      status = Completed, invoiceFileUrl = Some ''/uploads/invoices/invoice-001.pdf'',
      invoiceFileName = Some ''invoice-001.pdf'',
      paymentMethod = Some ''Credit Card (**** 4242)'',
      shippingAddress = Some ''123 Main St, Springfield, IL 62701, USA'',
      orderNotes = [''Order received and confirmed'', ''Payment processed successfully'',
        ''Items prepared for shipping'', ''Order shipped via FedEx Express'',
        ''Delivered successfully''],
      createdAt = ''2024-01-15T10:30:00Z'', updatedAt = ''2024-01-18T16:45:00Z''\<rparr>,
     \<lparr>orderId = ''ORD-002'', customerName = ''Sarah Johnson'',
      customerEmail = Some ''sarah.j@email.com'', orderAmount = 59950 / 100,
      orderDate = ''2024-01-14T14:20:00Z'',
      description = Some ''Professional camera kit'',
      status = Processing, invoiceFileUrl = Some ''/uploads/invoices/invoice-002.pdf'',
      invoiceFileName = Some ''invoice-002.pdf'',
      paymentMethod = Some ''PayPal'',
      shippingAddress = Some ''456 Oak Ave, Boston, MA 02101, USA'',
      orderNotes = [''Order received and confirmed'', ''Payment processed successfully'',
        ''Items being prepared for shipping''],
      createdAt = ''2024-01-14T14:20:00Z'', updatedAt = ''2024-01-15T09:15:00Z''\<rparr>,
     \<lparr>orderId = ''ORD-003'', customerName = ''Mike Davis'',
      customerEmail = Some ''mike.davis@email.com'', orderAmount = 2150,
      orderDate = ''2024-01-13T09:15:00Z'',
      description = Some ''Premium gaming setup with accessories'',
      status = Pending, invoiceFileUrl = Some ''/uploads/invoices/invoice-003.pdf'',
      invoiceFileName = Some ''invoice-003.pdf'',
      paymentMethod = Some ''Bank Transfer'',
      shippingAddress = Some ''789 Pine Rd, Seattle, WA 98101, USA'',
      orderNotes = [''Order received and awaiting payment confirmation''],
      createdAt = ''2024-01-13T09:15:00Z'', updatedAt = ''2024-01-13T09:15:00Z''\<rparr>,
     \<lparr>orderId = ''ORD-004'', customerName = ''Emily Wilson'',
      customerEmail = Some ''emily.w@email.com'', orderAmount = 79999 / 100,
      orderDate = ''2024-01-12T16:45:00Z'',
      description = Some ''Smart home automation bundle'',
      status = Completed, invoiceFileUrl = Some ''/uploads/invoices/invoice-004.pdf'',
      invoiceFileName = Some ''invoice-004.pdf'',
      paymentMethod = Some ''Credit Card (**** 1234)'',
      shippingAddress = Some ''321 Cedar St, Denver, CO 80201, USA'',
      orderNotes = [''Order received and confirmed'', ''Payment processed successfully'',
        ''Items shipped and delivered''],
      createdAt = ''2024-01-12T16:45:00Z'', updatedAt = ''2024-01-14T10:20:00Z''\<rparr>,
     \<lparr>orderId = ''ORD-005'', customerName = ''David Brown'',
      customerEmail = Some ''david.brown@email.com'', orderAmount = 1599,
      orderDate = ''2024-01-11T11:30:00Z'',
      description = Some ''Professional audio equipment'',
      status = Cancelled, invoiceFileUrl = Some ''/uploads/invoices/invoice-005.pdf'',
      invoiceFileName = Some ''invoice-005.pdf'',
      paymentMethod = Some ''Credit Card (**** 5678)'',
      shippingAddress = Some ''654 Birch Ave, Austin, TX 73301, USA'',
      orderNotes = [''Order received'', ''Customer requested cancellation'', ''Refund processed''],
      createdAt = ''2024-01-11T11:30:00Z'', updatedAt = ''2024-01-12T14:15:00Z''\<rparr>]"

text \<open>The constructor: the store starts with the sample orders and no notification.\<close>

definition initialService :: OrderService where
  "initialService = \<lparr>orders = sampleOrders, notifications = []\<rparr>"

subsection \<open>Notifications\<close>

definition createNotification ::
  "NotificationType \<Rightarrow> string \<Rightarrow> string \<Rightarrow> string \<Rightarrow> Ambient \<Rightarrow> OrderService \<Rightarrow> OrderService" where
  "createNotification ty title message oid amb svc =
     (let notification = \<lparr>n_id = uuid amb, n_type = ty, n_title = title, n_message = message,
            n_orderId = oid, n_timestamp = notifDateNow amb, n_read = False\<rparr>;
          unshifted = notification # notifications svc
      in svc\<lparr>notifications := (if length unshifted > 100 then take 100 unshifted else unshifted)\<rparr>)"

subsection \<open>createOrder\<close>

definition seedNote :: string where
  "seedNote = ''Order received and awaiting confirmation''"

definition createOrder ::
  "CreateOrderRequest \<Rightarrow> MulterFile option \<Rightarrow> Ambient \<Rightarrow> OrderService \<Rightarrow> Order \<times> OrderService" where
  "createOrder orderData invoiceFile amb svc =
     (let oid = ''ORD-'' @ padStart 3 CHR ''0'' (numberToString (length (orders svc) + 1));
          now = dateNow amb;
          newOrder = \<lparr>orderId = oid,
            customerName = c_customerName orderData,
            customerEmail = c_customerEmail orderData,
            orderAmount = c_orderAmount orderData,
            orderDate = now,
            description = c_description orderData,
            status = Pending,
            invoiceFileUrl = (case invoiceFile of
                Some f \<Rightarrow> Some (''/uploads/invoices/'' @ filename f) | None \<Rightarrow> None),
            invoiceFileName = map_option originalname invoiceFile,
            paymentMethod = c_paymentMethod orderData,
            shippingAddress = c_shippingAddress orderData,
            orderNotes = [seedNote],
            createdAt = now,
            updatedAt = now\<rparr>;
          svc1 = svc\<lparr>orders := newOrder # orders svc\<rparr>;
          svc2 = createNotification order_created ''New Order Created''
            (''Order '' @ oid @ '' has been created for '' @ c_customerName orderData) oid amb svc1
      in (newOrder, svc2))"

subsection \<open>deleteOrder\<close>

definition deleteOrder :: "string \<Rightarrow> OrderService \<Rightarrow> bool \<times> OrderService" where
  "deleteOrder oid svc =
     (case findIndex (\<lambda>order. orderId order = oid) (orders svc) of
        None \<Rightarrow> (False, svc)
      | Some orderIndex \<Rightarrow> (True, svc\<lparr>orders := splice1 orderIndex (orders svc)\<rparr>))"

subsection \<open>updateOrder\<close>

text \<open>
  The object literal \<^verbatim>\<open>{...existingOrder, ...updateData, updatedAt: now}\<close>: every key
  present in the payload overwrites the stored field, \<open>updatedAt\<close> is written last.
\<close>

definition mergeUpdate :: "Order \<Rightarrow> UpdateOrderRequest \<Rightarrow> string \<Rightarrow> Order" where
  "mergeUpdate existingOrder updateData now =
     existingOrder\<lparr>
       customerName := (case u_customerName updateData of
           Some v \<Rightarrow> v | None \<Rightarrow> customerName existingOrder),
       customerEmail := (case u_customerEmail updateData of
           Some v \<Rightarrow> Some v | None \<Rightarrow> customerEmail existingOrder),
       orderAmount := (case u_orderAmount updateData of
           Some v \<Rightarrow> v | None \<Rightarrow> orderAmount existingOrder),
       description := (case u_description updateData of
           Some v \<Rightarrow> Some v | None \<Rightarrow> description existingOrder),
       status := (case u_status updateData of
           Some v \<Rightarrow> v | None \<Rightarrow> status existingOrder),
       paymentMethod := (case u_paymentMethod updateData of
           Some v \<Rightarrow> Some v | None \<Rightarrow> paymentMethod existingOrder),
       shippingAddress := (case u_shippingAddress updateData of
           Some v \<Rightarrow> Some v | None \<Rightarrow> shippingAddress existingOrder),
       orderNotes := (case u_notes updateData of
           Some v \<Rightarrow> v | None \<Rightarrow> orderNotes existingOrder),
       updatedAt := now\<rparr>"

definition statusChangeNote :: "OrderStatus \<Rightarrow> OrderStatus \<Rightarrow> string" where
  "statusChangeNote old new =
     ''Status changed from '' @ statusString old @ '' to '' @ statusString new"

definition updateOrder ::
  "string \<Rightarrow> UpdateOrderRequest \<Rightarrow> Ambient \<Rightarrow> OrderService \<Rightarrow> Order option \<times> OrderService" where
  "updateOrder oid updateData amb svc =
     (case findIndex (\<lambda>order. orderId order = oid) (orders svc) of
        None \<Rightarrow> (None, svc)
      | Some orderIndex \<Rightarrow>
          (let existingOrder = orders svc ! orderIndex;
               merged = mergeUpdate existingOrder updateData (dateNow amb);
               (updatedOrder, svc1) =
                 (case u_status updateData of
                    None \<Rightarrow> (merged, svc)
                  | Some newStatus \<Rightarrow>
                      if newStatus = status existingOrder then (merged, svc)
                      else (merged\<lparr>orderNotes := orderNotes existingOrder @
                                [statusChangeNote (status existingOrder) newStatus]\<rparr>,
                            createNotification order_updated ''Order Status Updated''
                              (''Order '' @ oid @ '' status changed to '' @ statusString newStatus)
                              oid amb svc))
           in (Some updatedOrder, svc1\<lparr>orders := (orders svc1)[orderIndex := updatedOrder]\<rparr>)))"

subsection \<open>Strings, numbers and dates of the language\<close>

















subsection \<open>getOrders\<close>
















subsection \<open>getAnalytics\<close>





subsection \<open>getOrderById\<close>

definition getOrderById :: "string \<Rightarrow> OrderService \<Rightarrow> Order option" where
  "getOrderById oid svc = find (\<lambda>order. orderId order = oid) (orders svc)"

subsection \<open>Example inputs\<close>

text \<open>The payload \<^verbatim>\<open>{}\<close>, a clock and identifier reading, and a create request.\<close>

definition emptyUpdate :: UpdateOrderRequest where
  "emptyUpdate = \<lparr>u_customerName = None, u_customerEmail = None, u_orderAmount = None,
     u_description = None, u_status = None, u_paymentMethod = None, u_shippingAddress = None,
     u_notes = None\<rparr>"

definition exampleAmbient :: Ambient where
  "exampleAmbient = \<lparr>dateNow = ''2025-03-01T12:00:00.000Z'',
     uuid = ''3f2b8c1e-5d4a-4e6f-9a7b-0c1d2e3f4a5b'',
     notifDateNow = ''2025-03-01T12:00:00.001Z''\<rparr>"



text \<open>A clock reading half a second after the orderDate of the sample order ORD-001.\<close>

definition halfSecondAfterFirstSample :: Ambient where
  "halfSecondAfterFirstSample = \<lparr>dateNow = ''2024-01-15T10:30:00.500Z'',
     uuid = ''9b1deb4d-3b7d-4bad-9bdd-2b0d7b3dcb6d'',
     notifDateNow = ''2024-01-15T10:30:00.501Z''\<rparr>"

definition exampleRequest :: CreateOrderRequest where
  "exampleRequest = \<lparr>c_customerName = ''Ada Moreno'', c_customerEmail = None,
     c_orderAmount = 250, c_description = None, c_paymentMethod = Some ''PayPal'',
     c_shippingAddress = None\<rparr>"

section \<open>Identifiers of created orders\<close>

lemma numberToString_5: "numberToString 5 = ''5''"
  by (simp add: numberToString.simps digitChar_def)

lemma createOrder_orders:
  "orders (snd (createOrder req file amb svc)) = fst (createOrder req file amb svc) # orders svc"
  by (simp add: createOrder_def createNotification_def Let_def)

lemma createOrder_orderId:
  "orderId (fst (createOrder req file amb svc)) =
     ''ORD-'' @ padStart 3 CHR ''0'' (numberToString (length (orders svc) + 1))"
  by (simp add: createOrder_def Let_def)

lemma deleteOrder_first_sample:
  "deleteOrder ''ORD-001'' initialService = (True, initialService\<lparr>orders := tl sampleOrders\<rparr>)"
  by (simp add: deleteOrder_def initialService_def sampleOrders_def splice1_def)

lemma orderIds_tl_sample:
  "map orderId (tl sampleOrders) = [''ORD-002'', ''ORD-003'', ''ORD-004'', ''ORD-005'']"
  by (simp add: sampleOrders_def)

text \<open>
  C1. Every orderId should identify at most one order, and createOrder should assign an
  orderId distinct from those present, also after deletions. The identifier is built from
  the current number of orders, so after a deletion it repeats one that is still in the
  store: from the initial store, deleting ORD-001 and then creating any order yields a
  second ORD-005.
\<close>

theorem createOrder_after_delete_reuses_orderId:
  "(let (deleted, s1) = deleteOrder ''ORD-001'' initialService;
        (created, s2) = createOrder req file amb s1
    in deleted \<and>
       map orderId (orders s1) = [''ORD-002'', ''ORD-003'', ''ORD-004'', ''ORD-005''] \<and>
       orderId created = ''ORD-005'' \<and>
       map orderId (orders s2) = [''ORD-005'', ''ORD-002'', ''ORD-003'', ''ORD-004'', ''ORD-005''] \<and>
       \<not> distinct (map orderId (orders s2)))"
proof -
  define s1 where "s1 = initialService\<lparr>orders := tl sampleOrders\<rparr>"
  have del: "deleteOrder ''ORD-001'' initialService = (True, s1)"
    unfolding s1_def by (rule deleteOrder_first_sample)
  have ids1: "map orderId (orders s1) = [''ORD-002'', ''ORD-003'', ''ORD-004'', ''ORD-005'']"
    by (simp add: s1_def orderIds_tl_sample)
  have len: "length (orders s1) + 1 = 5"
    using arg_cong [OF ids1, of length] by simp
  have oid: "orderId (fst (createOrder req file amb s1)) = ''ORD-005''"
    unfolding createOrder_orderId len
    by (simp add: numberToString_5 padStart_def numeral_2_eq_2)
  have ids2: "map orderId (orders (snd (createOrder req file amb s1))) =
      [''ORD-005'', ''ORD-002'', ''ORD-003'', ''ORD-004'', ''ORD-005'']"
    by (simp only: createOrder_orders list.map oid ids1)
  show ?thesis
    by (simp add: del split_def oid ids1 ids2)
qed

section \<open>Looking an order up\<close>

lemma findIndex_None: "findIndex P xs = None \<longleftrightarrow> (\<forall>x \<in> set xs. \<not> P x)"
  by (induction xs) auto

lemma findIndex_Some:
  "findIndex P xs = Some i \<Longrightarrow> i < length xs \<and> P (xs ! i) \<and> (\<forall>j < i. \<not> P (xs ! j))"
proof (induction xs arbitrary: i)
  case Nil then show ?case by simp
next
  case (Cons x xs)
  show ?case
  proof (cases "P x")
    case True with Cons.prems show ?thesis by simp
  next
    case False
    with Cons.prems obtain k where k: "findIndex P xs = Some k" "i = Suc k" by auto
    from Cons.IH [OF k(1)] False k(2) show ?thesis
      by (auto simp: less_Suc_eq_0_disj)
  qed
qed

lemma find_findIndex:
  "find P xs = Some x \<Longrightarrow> \<exists>i. findIndex P xs = Some i \<and> xs ! i = x"
  by (induction xs) (auto split: if_splits)

lemma findIndex_find_update:
  "findIndex P xs = Some i \<Longrightarrow> P y \<Longrightarrow> find P (xs[i := y]) = Some y"
proof (induction xs arbitrary: i)
  case Nil then show ?case by simp
next
  case (Cons x xs)
  then show ?case by (cases "P x") auto
qed

lemma orderId_mergeUpdate: "orderId (mergeUpdate e u t) = orderId e"
  by (simp add: mergeUpdate_def)

lemma orderIds_sample:
  "map orderId sampleOrders = [''ORD-001'', ''ORD-002'', ''ORD-003'', ''ORD-004'', ''ORD-005'']"
  by (simp add: sampleOrders_def)

section \<open>Operations on an absent identifier\<close>

text \<open>
  C9. For an orderId that no stored order carries, updateOrder returns the not-found
  signal (null), changes no order and emits no notification, and deleteOrder returns
  false and leaves the store, and so its size, unchanged.
\<close>

theorem absent_id_not_found_and_no_change:
  assumes "oid \<notin> orderId ` set (orders svc)"
  shows "updateOrder oid updateData amb svc = (None, svc) \<and>
         orders (snd (updateOrder oid updateData amb svc)) = orders svc \<and>
         notifications (snd (updateOrder oid updateData amb svc)) = notifications svc \<and>
         deleteOrder oid svc = (False, svc) \<and>
         length (orders (snd (deleteOrder oid svc))) = length (orders svc)"
proof -
  have "findIndex (\<lambda>order. orderId order = oid) (orders svc) = None"
    using assms by (auto simp: findIndex_None)
  then show ?thesis by (simp add: updateOrder_def deleteOrder_def)
qed

theorem absent_id_not_found_and_no_change_witness:
  "''ORD-042'' \<notin> orderId ` set (orders initialService) \<and>
   updateOrder ''ORD-042'' (emptyUpdate\<lparr>u_status := Some Completed\<rparr>) exampleAmbient initialService
     = (None, initialService) \<and>
   deleteOrder ''ORD-042'' initialService = (False, initialService)"
proof -
  have "orderId ` set (orders initialService) = set (map orderId sampleOrders)"
    by (simp add: initialService_def)
  then have absent: "''ORD-042'' \<notin> orderId ` set (orders initialService)"
    unfolding orderIds_sample by simp
  from absent absent_id_not_found_and_no_change [OF absent] show ?thesis by simp
qed

section \<open>Updating an existing order\<close>

lemma getOrderById_found:
  assumes "getOrderById oid svc = Some existing"
  obtains i where "findIndex (\<lambda>order. orderId order = oid) (orders svc) = Some i"
    and "orders svc ! i = existing" and "i < length (orders svc)" and "orderId existing = oid"
proof -
  from assms obtain i where i: "findIndex (\<lambda>order. orderId order = oid) (orders svc) = Some i"
      "orders svc ! i = existing"
    unfolding getOrderById_def by (blast dest: find_findIndex)
  from findIndex_Some [OF i(1)] i(2) have "i < length (orders svc)" "orderId existing = oid"
    by auto
  with i that show ?thesis by blast
qed

lemma getOrderById_stored:
  assumes "findIndex (\<lambda>order. orderId order = oid) (orders svc) = Some i"
    and "orderId updated = oid"
    and "orders svc' = (orders svc)[i := updated]"
  shows "getOrderById oid svc' = Some updated"
  unfolding getOrderById_def using findIndex_find_update [OF assms(1), of updated] assms(2,3)
  by simp

lemma updateOrder_status_changed:
  assumes "findIndex (\<lambda>order. orderId order = oid) (orders svc) = Some i"
    and "u_status updateData = Some newStatus"
    and "newStatus \<noteq> status (orders svc ! i)"
  shows "updateOrder oid updateData amb svc =
      (Some ((mergeUpdate (orders svc ! i) updateData (dateNow amb))
          \<lparr>orderNotes := orderNotes (orders svc ! i) @
              [statusChangeNote (status (orders svc ! i)) newStatus]\<rparr>),
       svc\<lparr>orders := (orders svc)[i := (mergeUpdate (orders svc ! i) updateData (dateNow amb))
          \<lparr>orderNotes := orderNotes (orders svc ! i) @
              [statusChangeNote (status (orders svc ! i)) newStatus]\<rparr>],
         notifications := take 100 (\<lparr>n_id = uuid amb, n_type = order_updated,
            n_title = ''Order Status Updated'',
            n_message = ''Order '' @ oid @ '' status changed to '' @ statusString newStatus,
            n_orderId = oid, n_timestamp = notifDateNow amb, n_read = False\<rparr>
            # notifications svc)\<rparr>)"
  using assms by (simp add: updateOrder_def createNotification_def Let_def)

lemma updateOrder_status_kept:
  assumes "findIndex (\<lambda>order. orderId order = oid) (orders svc) = Some i"
    and "u_status updateData = None \<or> u_status updateData = Some (status (orders svc ! i))"
  shows "updateOrder oid updateData amb svc =
      (Some (mergeUpdate (orders svc ! i) updateData (dateNow amb)),
       svc\<lparr>orders := (orders svc)[i := mergeUpdate (orders svc ! i) updateData (dateNow amb)]\<rparr>)"
  using assms by (auto simp add: updateOrder_def Let_def)

text \<open>
  C10. When the payload of an update of an existing order carries both a \<open>notes\<close> array
  and a status different from the current one, the stored notes are the previous notes
  followed by the single status-change note: the payload's notes are dropped, neither
  replacing nor joining the stored ones.
\<close>

theorem status_change_discards_payload_notes:
  assumes "getOrderById oid svc = Some existing"
    and "u_status updateData = Some newStatus"
    and "newStatus \<noteq> status existing"
    and "u_notes updateData = Some payloadNotes"
  shows "\<exists>updated svc'. updateOrder oid updateData amb svc = (Some updated, svc') \<and>
           getOrderById oid svc' = Some updated \<and>
           orderNotes updated =
             orderNotes existing @ [statusChangeNote (status existing) newStatus]"
proof -
  from assms(1) obtain i where i: "findIndex (\<lambda>order. orderId order = oid) (orders svc) = Some i"
    "orders svc ! i = existing" "i < length (orders svc)" "orderId existing = oid"
    by (rule getOrderById_found)
  from assms(3) i(2) have ne: "newStatus \<noteq> status (orders svc ! i)" by simp
  show ?thesis
    unfolding updateOrder_status_changed [OF i(1) assms(2) ne] i(2)
    by (simp add: getOrderById_stored [OF i(1)] orderId_mergeUpdate i(4))
qed

theorem status_change_discards_payload_notes_witness:
  "getOrderById ''ORD-003'' initialService = Some (sampleOrders ! 2) \<and>
   Processing \<noteq> status (sampleOrders ! 2) \<and>
   (\<exists>updated svc'.
      updateOrder ''ORD-003''
        (emptyUpdate\<lparr>u_status := Some Processing, u_notes := Some [''Call the customer'']\<rparr>)
        exampleAmbient initialService = (Some updated, svc') \<and>
      getOrderById ''ORD-003'' svc' = Some updated \<and>
      orderNotes updated = [''Order received and awaiting payment confirmation'',
        ''Status changed from pending to processing''])"
proof -
  have found: "getOrderById ''ORD-003'' initialService = Some (sampleOrders ! 2)"
    by (simp add: getOrderById_def initialService_def sampleOrders_def)
  have st: "Processing \<noteq> status (sampleOrders ! 2)"
    by (simp add: sampleOrders_def)
  have old: "orderNotes (sampleOrders ! 2) = [''Order received and awaiting payment confirmation'']"
    "status (sampleOrders ! 2) = Pending"
    by (simp_all add: sampleOrders_def)
  from status_change_discards_payload_notes [OF found, of
      "emptyUpdate\<lparr>u_status := Some Processing, u_notes := Some [''Call the customer'']\<rparr>"
      Processing "[''Call the customer'']" exampleAmbient] st
  show ?thesis
    by (simp add: found old statusChangeNote_def)
qed


lemma updatedAt_mergeUpdate: "updatedAt (mergeUpdate e u t) = t"
  by (simp add: mergeUpdate_def)


section \<open>Status changes\<close>

text \<open>
  C3. Every update of an existing order stores the update time in \<open>updatedAt\<close>. When the
  payload's status differs from the current one, the notes grow by exactly one entry,
  the last entry reads "Status changed from <old> to <new>", and exactly one
  \<open>order_updated\<close> notification is put in front of the notifications (kept to 100).
\<close>

theorem update_status_change_note_and_notification:
  assumes "getOrderById oid svc = Some existing"
  shows "\<exists>updated svc'. updateOrder oid updateData amb svc = (Some updated, svc') \<and>
           getOrderById oid svc' = Some updated \<and>
           updatedAt updated = dateNow amb \<and>
           (\<forall>newStatus. u_status updateData = Some newStatus \<and> newStatus \<noteq> status existing \<longrightarrow>
              length (orderNotes updated) = length (orderNotes existing) + 1 \<and>
              butlast (orderNotes updated) = orderNotes existing \<and>
              last (orderNotes updated) =
                ''Status changed from '' @ statusString (status existing) @ '' to '' @
                  statusString newStatus \<and>
              notifications svc' =
                take 100 (\<lparr>n_id = uuid amb, n_type = order_updated,
                  n_title = ''Order Status Updated'',
                  n_message = ''Order '' @ oid @ '' status changed to '' @ statusString newStatus,
                  n_orderId = oid, n_timestamp = notifDateNow amb, n_read = False\<rparr>
                  # notifications svc))"
proof -
  from assms(1) obtain i where i: "findIndex (\<lambda>order. orderId order = oid) (orders svc) = Some i"
    "orders svc ! i = existing" "i < length (orders svc)" "orderId existing = oid"
    by (rule getOrderById_found)
  show ?thesis
  proof (cases "\<exists>newStatus. u_status updateData = Some newStatus \<and> newStatus \<noteq> status existing")
    case True
    then obtain newStatus where ns: "u_status updateData = Some newStatus"
      and ne: "newStatus \<noteq> status (orders svc ! i)"
      using i(2) by auto
    show ?thesis
      unfolding updateOrder_status_changed [OF i(1) ns ne] i(2)
      by (simp add: getOrderById_stored [OF i(1)] orderId_mergeUpdate updatedAt_mergeUpdate
          i(4) ns statusChangeNote_def)
  next
    case False
    then have kept: "u_status updateData = None \<or> u_status updateData = Some (status (orders svc ! i))"
      using i(2) by (cases "u_status updateData") auto
    from False have vac: "\<And>newStatus. u_status updateData = Some newStatus \<Longrightarrow>
        newStatus \<noteq> status existing \<Longrightarrow> False"
      by blast
    show ?thesis
      unfolding updateOrder_status_kept [OF i(1) kept] i(2)
      by (auto simp add: getOrderById_stored [OF i(1)] orderId_mergeUpdate updatedAt_mergeUpdate
          i(4) dest: vac)
  qed
qed

theorem update_status_change_note_and_notification_witness:
  "getOrderById ''ORD-002'' initialService = Some (sampleOrders ! 1) \<and>
   (\<exists>updated svc'.
      updateOrder ''ORD-002'' (emptyUpdate\<lparr>u_status := Some Completed\<rparr>)
        exampleAmbient initialService = (Some updated, svc') \<and>
      getOrderById ''ORD-002'' svc' = Some updated \<and>
      updatedAt updated = ''2025-03-01T12:00:00.000Z'' \<and>
      length (orderNotes updated) = 4 \<and>
      last (orderNotes updated) = ''Status changed from processing to completed'' \<and>
      map n_type (notifications svc') = [order_updated] \<and>
      map n_orderId (notifications svc') = [''ORD-002''])"
proof -
  have found: "getOrderById ''ORD-002'' initialService = Some (sampleOrders ! 1)"
    by (simp add: getOrderById_def initialService_def sampleOrders_def)
  have old: "length (orderNotes (sampleOrders ! 1)) = 3" "status (sampleOrders ! 1) = Processing"
    by (simp_all add: sampleOrders_def)
  have payload: "u_status (emptyUpdate\<lparr>u_status := Some Completed\<rparr>) = Some Completed"
    by simp
  from update_status_change_note_and_notification [OF found, of
      "emptyUpdate\<lparr>u_status := Some Completed\<rparr>" exampleAmbient]
  obtain updated svc' where r:
    "updateOrder ''ORD-002'' (emptyUpdate\<lparr>u_status := Some Completed\<rparr>)
        exampleAmbient initialService = (Some updated, svc')"
    "getOrderById ''ORD-002'' svc' = Some updated"
    "updatedAt updated = dateNow exampleAmbient"
    "\<forall>newStatus. u_status (emptyUpdate\<lparr>u_status := Some Completed\<rparr>) = Some newStatus \<and>
        newStatus \<noteq> status (sampleOrders ! 1) \<longrightarrow>
        length (orderNotes updated) = length (orderNotes (sampleOrders ! 1)) + 1 \<and>
        butlast (orderNotes updated) = orderNotes (sampleOrders ! 1) \<and>
        last (orderNotes updated) =
          ''Status changed from '' @ statusString (status (sampleOrders ! 1)) @ '' to '' @
            statusString newStatus \<and>
        notifications svc' =
          take 100 (\<lparr>n_id = uuid exampleAmbient, n_type = order_updated,
            n_title = ''Order Status Updated'',
            n_message = ''Order '' @ ''ORD-002'' @ '' status changed to '' @ statusString newStatus,
            n_orderId = ''ORD-002'', n_timestamp = notifDateNow exampleAmbient, n_read = False\<rparr>
            # notifications initialService)"
    by blast
  from r(4) [rule_format, of Completed] payload old
  have "length (orderNotes updated) = 4"
    "last (orderNotes updated) = ''Status changed from processing to completed''"
    "map n_type (notifications svc') = [order_updated]"
    "map n_orderId (notifications svc') = [''ORD-002'']"
    by (simp_all add: initialService_def)
  with found r(1,2,3) show ?thesis
    by (simp add: exampleAmbient_def)
qed

section \<open>Notes under updates\<close>




section \<open>Creating an order\<close>

text \<open>
  C4. The order that createOrder returns has status pending, the single seed note,
  \<open>createdAt\<close> equal to \<open>updatedAt\<close>, is stored at the front of the orders, and exactly one
  \<open>order_created\<close> notification naming its orderId is put in front of the notifications.
\<close>

theorem createOrder_result:
  "(let (created, svc') = createOrder orderData invoiceFile amb svc
    in status created = Pending \<and>
       orderNotes created = [''Order received and awaiting confirmation''] \<and>
       createdAt created = updatedAt created \<and>
       createdAt created = dateNow amb \<and>
       orders svc' = created # orders svc \<and>
       notifications svc' =
         take 100 (\<lparr>n_id = uuid amb, n_type = order_created, n_title = ''New Order Created'',
           n_message = ''Order '' @ orderId created @ '' has been created for '' @
             c_customerName orderData,
           n_orderId = orderId created, n_timestamp = notifDateNow amb, n_read = False\<rparr>
           # notifications svc))"
  by (simp add: createOrder_def createNotification_def seedNote_def Let_def)

theorem createOrder_result_witness:
  "(let (created, svc') = createOrder exampleRequest None exampleAmbient initialService
    in status created = Pending \<and>
       orderNotes created = [''Order received and awaiting confirmation''] \<and>
       createdAt created = updatedAt created \<and>
       map orderId (orders svc') =
         [orderId created, ''ORD-001'', ''ORD-002'', ''ORD-003'', ''ORD-004'', ''ORD-005''] \<and>
       map n_type (notifications svc') = [order_created] \<and>
       map n_orderId (notifications svc') = [orderId created])"
  using createOrder_result [of exampleRequest None exampleAmbient initialService]
  by (simp add: split_def Let_def initialService_def orderIds_sample)

section \<open>Sorting\<close>


























lemma orderDates_after_create:
  "map orderDate (orders (snd (createOrder exampleRequest None halfSecondAfterFirstSample
      initialService))) =
    [''2024-01-15T10:30:00.500Z'', ''2024-01-15T10:30:00Z'', ''2024-01-14T14:20:00Z'',
     ''2024-01-13T09:15:00Z'', ''2024-01-12T16:45:00Z'', ''2024-01-11T11:30:00Z'']"
  by (simp add: createOrder_def createNotification_def initialService_def sampleOrders_def
      halfSecondAfterFirstSample_def Let_def)


section \<open>Searching\<close>







section \<open>Pagination\<close>
















section \<open>Analytics\<close>




end
